theory Spec2Isabelle
  imports Main "HOL-Library.Word"
begin

section \<open>Python values used by the date and time protocol\<close>

text \<open>
  A \<open>bytes\<close> or \<open>bytearray\<close> object is a list of 8-bit words, a Python \<open>int\<close> is an
  \<open>int\<close>, and a Python \<open>str\<close> is the list of its Unicode code points (the Maori month
  names hold code points above 255, so a \<open>char list\<close> cannot represent them).
\<close>

type_synonym byte = "8 word"
type_synonym ustr = "nat list"

text \<open>An ASCII literal of the source as a list of code points.\<close>

definition asc :: "string \<Rightarrow> ustr" where
  "asc s = map of_char s"

datatype py_error =
    KeyError | IndexError | ValueError | OverflowError
  | UnicodeEncodeError | UnicodeDecodeError

text \<open>Sequencing of computations that may raise: the first exception wins.\<close>

definition bind_e :: "py_error + 'a \<Rightarrow> ('a \<Rightarrow> py_error + 'b) \<Rightarrow> py_error + 'b" where
  "bind_e m f = (case m of Inl e \<Rightarrow> Inl e | Inr x \<Rightarrow> f x)"

text \<open>\<open>int.from_bytes(bs, "big")\<close>.\<close>

definition from_bytes :: "byte list \<Rightarrow> int" where
  "from_bytes bs = foldl (\<lambda>acc b. acc * 256 + uint b) 0 bs"

text \<open>\<open>n.to_bytes(2, "big")\<close>: raises OverflowError outside \<open>0..65535\<close>.\<close>

definition to_bytes2 :: "int \<Rightarrow> py_error + byte list" where
  "to_bytes2 n =
     (if 0 \<le> n \<and> n < 65536
      then Inr [word_of_int (n div 256), word_of_int (n mod 256)]
      else Inl OverflowError)"

text \<open>The slice \<open>xs[i:j]\<close> for non-negative bounds; Python clamps both to the length.\<close>

definition slice :: "'a list \<Rightarrow> nat \<Rightarrow> nat \<Rightarrow> 'a list" where
  "slice xs i j = take (j - i) (drop i xs)"

text \<open>The slice assignment \<open>xs[i:j] = ys\<close> on a bytearray, which may change the length.\<close>

definition set_slice :: "'a list \<Rightarrow> nat \<Rightarrow> nat \<Rightarrow> 'a list \<Rightarrow> 'a list" where
  "set_slice xs i j ys = take i xs @ ys @ drop (max i j) xs"

text \<open>
  Storing an \<open>int\<close> into a bytearray element: ValueError unless it is in \<open>range(256)\<close>.
\<close>

definition to_byte :: "int \<Rightarrow> py_error + byte" where
  "to_byte n = (if 0 \<le> n \<and> n < 256 then Inr (word_of_int n) else Inl ValueError)"

text \<open>
  The subscript \<open>xs[i]\<close>: an index from \<open>-len(xs)\<close> up to \<open>-1\<close> counts from the end,
  and an index outside \<open>-len(xs) .. len(xs) - 1\<close> raises IndexError.
\<close>

definition py_index :: "'a list \<Rightarrow> int \<Rightarrow> py_error + 'a" where
  "py_index xs i =
     (if 0 \<le> i \<and> i < int (length xs) then Inr (xs ! nat i)
      else if i < 0 \<and> - int (length xs) \<le> i then Inr (xs ! nat (int (length xs) + i))
      else Inl IndexError)"

subsection \<open>Packet header constants (both programs)\<close>

definition MAGIC_NUMBER :: int where "MAGIC_NUMBER = 0x497E"
definition DT_REQ :: int where "DT_REQ = 0x0001"
definition DT_RES :: int where "DT_RES = 0x0002"
definition REQ_DATE :: int where "REQ_DATE = 0x0001"
definition REQ_TIME :: int where "REQ_TIME = 0x0002"

lemmas consts_defs = MAGIC_NUMBER_def DT_REQ_def DT_RES_def REQ_DATE_def REQ_TIME_def

section \<open>Client: building the DT-Request\<close>

text \<open>
  \<open>packet_create\<close> of client.py. The bytearray starts as six zero bytes; the request
  type field is written only for the strings \<open>'date'\<close> and \<open>'time'\<close>.
\<close>

definition packet_create :: "ustr \<Rightarrow> py_error + byte list" where
  "packet_create req_type =
     (let packet = replicate 6 (0 :: byte) in
      bind_e (to_bytes2 MAGIC_NUMBER) (\<lambda>m.
      let packet = set_slice packet 0 2 m in
      bind_e (to_bytes2 DT_REQ) (\<lambda>t.
      let packet = set_slice packet 2 4 t in
      bind_e (if req_type = asc ''date''
              then bind_e (to_bytes2 REQ_DATE) (\<lambda>k. Inr (set_slice packet 4 6 k))
              else Inr packet) (\<lambda>packet.
      bind_e (if req_type = asc ''time''
              then bind_e (to_bytes2 REQ_TIME) (\<lambda>k. Inr (set_slice packet 4 6 k))
              else Inr packet) (\<lambda>packet.
      Inr packet)))))"

section \<open>Server: checking a received DT-Request\<close>

text \<open>
  \<open>process_packet\<close> of server.py, without its log output: \<open>None\<close> when the datagram is
  dropped, otherwise the request type read from the slice \<open>packet[5:6]\<close>.
\<close>

definition process_packet_server :: "byte list \<Rightarrow> int option" where
  "process_packet_server packet =
     (if length packet \<noteq> 6 then None
      else if from_bytes (slice packet 0 2) \<noteq> MAGIC_NUMBER then None
      else if from_bytes (slice packet 2 4) \<noteq> DT_REQ then None
      else Some (from_bytes (slice packet 5 6)))"

section \<open>Text formatting\<close>

text \<open>
  \<open>str(n)\<close> and \<open>hex(n)\<close> for a Python \<open>int\<close>, and the two replacement fields of
  \<open>str.format\<close> that the programs use: \<open>{i}\<close> and \<open>{i:0wd}\<close> (decimal, zero-filled to
  width \<open>w\<close>, the sign counted in the width).
\<close>

fun digits :: "nat \<Rightarrow> ustr" where
  "digits n = (if n < 10 then [48 + n] else digits (n div 10) @ [48 + n mod 10])"

declare digits.simps [simp del]

definition py_str :: "int \<Rightarrow> ustr" where
  "py_str n = (if n < 0 then 45 # digits (nat (- n)) else digits (nat n))"

definition hex_digit :: "nat \<Rightarrow> nat" where
  "hex_digit d = (if d < 10 then 48 + d else 87 + d)"

fun hex_digits :: "nat \<Rightarrow> ustr" where
  "hex_digits n =
     (if n < 16 then [hex_digit n] else hex_digits (n div 16) @ [hex_digit (n mod 16)])"

declare hex_digits.simps [simp del]

definition py_hex :: "int \<Rightarrow> ustr" where
  "py_hex n = (if n < 0 then 45 # asc ''0x'' @ hex_digits (nat (- n))
               else asc ''0x'' @ hex_digits (nat n))"

definition zfill :: "nat \<Rightarrow> ustr \<Rightarrow> ustr" where
  "zfill w ds = replicate (w - length ds) 48 @ ds"

definition pad_d :: "nat \<Rightarrow> int \<Rightarrow> ustr" where
  "pad_d w n = (if n < 0 then 45 # zfill (w - 1) (digits (nat (- n)))
                else zfill w (digits (nat n)))"

datatype fmt_arg = StrArg ustr | IntArg int

datatype fmt_piece = Lit ustr | Field nat | FieldD nat nat

fun format_piece :: "fmt_arg list \<Rightarrow> fmt_piece \<Rightarrow> py_error + ustr" where
  "format_piece args (Lit s) = Inr s"
| "format_piece args (Field i) =
     (if i < length args
      then (case args ! i of StrArg s \<Rightarrow> Inr s | IntArg n \<Rightarrow> Inr (py_str n))
      else Inl IndexError)"
| "format_piece args (FieldD i w) =
     (if i < length args
      then (case args ! i of StrArg s \<Rightarrow> Inl ValueError | IntArg n \<Rightarrow> Inr (pad_d w n))
      else Inl IndexError)"

fun format :: "fmt_piece list \<Rightarrow> fmt_arg list \<Rightarrow> py_error + ustr" where
  "format [] args = Inr []"
| "format (p # ps) args =
     bind_e (format_piece args p) (\<lambda>s. bind_e (format ps args) (\<lambda>r. Inr (s @ r)))"

section \<open>UTF-8\<close>

text \<open>
  \<open>str.encode('UTF-8')\<close> and \<open>bytes.decode('UTF-8')\<close> in their default strict mode:
  surrogates cannot be encoded; the decoder refuses stray continuation bytes, truncated
  and overlong sequences, surrogates and values above \<open>0x10FFFF\<close>.
\<close>

definition encode_cp :: "nat \<Rightarrow> byte list option" where
  "encode_cp c =
     (if c < 0x80 then Some [of_nat c]
      else if c < 0x800 then Some [of_nat (0xC0 + c div 64), of_nat (0x80 + c mod 64)]
      else if 0xD800 \<le> c \<and> c < 0xE000 then None
      else if c < 0x10000 then
        Some [of_nat (0xE0 + c div 4096), of_nat (0x80 + c div 64 mod 64),
              of_nat (0x80 + c mod 64)]
      else if c < 0x110000 then
        Some [of_nat (0xF0 + c div 262144), of_nat (0x80 + c div 4096 mod 64),
              of_nat (0x80 + c div 64 mod 64), of_nat (0x80 + c mod 64)]
      else None)"

fun utf8_encode :: "ustr \<Rightarrow> byte list option" where
  "utf8_encode [] = Some []"
| "utf8_encode (c # cs) =
     (case encode_cp c of
        None \<Rightarrow> None
      | Some bs \<Rightarrow> map_option (\<lambda>r. bs @ r) (utf8_encode cs))"

definition is_cont :: "byte \<Rightarrow> bool" where
  "is_cont b = (0x80 \<le> unat b \<and> unat b < 0xC0)"

definition cont_bits :: "byte \<Rightarrow> nat" where
  "cont_bits b = unat b - 0x80"

fun utf8_decode :: "byte list \<Rightarrow> ustr option" where
  "utf8_decode [] = Some []"
| "utf8_decode (b0 # bs) =
     (if unat b0 < 0x80 then map_option (\<lambda>t. unat b0 # t) (utf8_decode bs)
      else if unat b0 < 0xC2 then None
      else if unat b0 < 0xE0 then
        (case bs of
           b1 # r \<Rightarrow>
             if is_cont b1
             then map_option (\<lambda>t. ((unat b0 - 0xC0) * 64 + cont_bits b1) # t)
                    (utf8_decode r)
             else None
         | _ \<Rightarrow> None)
      else if unat b0 < 0xF0 then
        (case bs of
           b1 # b2 # r \<Rightarrow>
             (let c = (unat b0 - 0xE0) * 4096 + cont_bits b1 * 64 + cont_bits b2 in
              if is_cont b1 \<and> is_cont b2 \<and> 0x800 \<le> c \<and> \<not> (0xD800 \<le> c \<and> c < 0xE000)
              then map_option (\<lambda>t. c # t) (utf8_decode r)
              else None)
         | _ \<Rightarrow> None)
      else if unat b0 < 0xF5 then
        (case bs of
           b1 # b2 # b3 # r \<Rightarrow>
             (let c = (unat b0 - 0xF0) * 262144 + cont_bits b1 * 4096
                      + cont_bits b2 * 64 + cont_bits b3 in
              if is_cont b1 \<and> is_cont b2 \<and> is_cont b3 \<and> 0x10000 \<le> c \<and> c < 0x110000
              then map_option (\<lambda>t. c # t) (utf8_decode r)
              else None)
         | _ \<Rightarrow> None)
      else None)"

text \<open>The two codec calls of the programs, with the exception each can raise.\<close>

definition str_encode :: "ustr \<Rightarrow> py_error + byte list" where
  "str_encode s = (case utf8_encode s of None \<Rightarrow> Inl UnicodeEncodeError | Some bs \<Rightarrow> Inr bs)"

definition bytes_decode :: "byte list \<Rightarrow> py_error + ustr" where
  "bytes_decode bs = (case utf8_decode bs of None \<Rightarrow> Inl UnicodeDecodeError | Some s \<Rightarrow> Inr s)"

section \<open>Server: localisation tables and the DT-Response\<close>

text \<open>A dictionary lookup \<open>d[k]\<close>, which raises KeyError on a missing key.\<close>

definition dict_get :: "('k \<rightharpoonup> 'v) \<Rightarrow> 'k \<Rightarrow> py_error + 'v" where
  "dict_get d k = (case d k of None \<Rightarrow> Inl KeyError | Some v \<Rightarrow> Inr v)"

text \<open>
  The table \<open>STRINGS\<close>: per language code the date template and the time template.
  The German date template takes its arguments in the order 1, 0, 2.
\<close>

definition STRINGS :: "int \<rightharpoonup> fmt_piece list list" where
  "STRINGS = map_of
     [(0x1, [[Lit (asc ''Today's date is ''), Field 0, Lit (asc '' ''), Field 1,
              Lit (asc '', ''), Field 2],
             [Lit (asc ''The current time is ''), FieldD 0 2, Lit (asc '':''), FieldD 1 2]]),
      (0x2, [[Lit (asc ''Ko te ra o tenei ra ko ''), Field 0, Lit (asc '' ''), Field 1,
              Lit (asc '', ''), Field 2],
             [Lit (asc ''Ko te wa o tenei wa ''), FieldD 0 2, Lit (asc '':''), FieldD 1 2]]),
      (0x3, [[Lit (asc ''Heute ist der ''), Field 1, Lit (asc ''. ''), Field 0,
              Lit (asc '' ''), Field 2],
             [Lit (asc ''Die Uhrzeit ist ''), FieldD 0 2, Lit (asc '':''), FieldD 1 2]])]"

text \<open>
  The table \<open>MONTHS\<close>. The letters outside ASCII are given by code point: 257 is a with
  macron, 333 is o with macron, 363 is u with macron, 228 is a with diaeresis.
\<close>

definition MONTHS :: "int \<rightharpoonup> ustr list" where
  "MONTHS = map_of
     [(0x1, [asc ''January'', asc ''February'', asc ''March'', asc ''April'', asc ''May'',
             asc ''June'', asc ''July'', asc ''August'', asc ''September'', asc ''October'',
             asc ''November'', asc ''December'']),
      (0x2, [asc ''Kohit'' @ [257] @ asc ''tea'',
             asc ''Hui-tanguru'',
             asc ''Pout'' @ [363] @ asc ''-te-rangi'',
             asc ''Paenga-wh'' @ [257] @ asc ''wh'' @ [257],
             asc ''Haratua'',
             asc ''Pipiri'',
             asc ''H'' @ [333] @ asc ''ngongoi'',
             asc ''Here-turi-k'' @ [333] @ asc ''k'' @ [257],
             asc ''Mahuru'',
             asc ''Whiringa-'' @ [257] @ asc ''-nuku'',
             asc ''Whiringa-'' @ [257] @ asc ''-rangi'',
             asc ''Hakihea'']),
      (0x3, [asc ''Januar'', asc ''Februar'', asc ''M'' @ [228] @ asc ''rz'', asc ''April'',
             asc ''Mai'', asc ''Juni'', asc ''Juli'', asc ''August'', asc ''September'',
             asc ''Oktober'', asc ''November'', asc ''Dezember''])]"

text \<open>The value of \<open>datetime.now()\<close>, an input of the model.\<close>

record datetime =
  year :: int
  month :: int
  day :: int
  hour :: int
  minute :: int

text \<open>
  \<open>create_packet\<close> of server.py, with the current time as a parameter. The text stays
  empty unless the request type is \<open>REQ_DATE\<close> or \<open>REQ_TIME\<close>.
\<close>

definition create_packet :: "int \<Rightarrow> int \<Rightarrow> datetime \<Rightarrow> py_error + byte list" where
  "create_packet request_type lang_code curr_time =
     (let mi = minute curr_time; ho = hour curr_time; da = day curr_time;
          mo = month curr_time; ye = year curr_time;
          text_string = [] in
      bind_e (if request_type = REQ_DATE
              then bind_e (dict_get STRINGS lang_code) (\<lambda>ts.
                   bind_e (py_index ts 0) (\<lambda>t.
                   bind_e (dict_get MONTHS lang_code) (\<lambda>ms.
                   bind_e (py_index ms (mo - 1)) (\<lambda>m.
                   format t [StrArg m, IntArg da, IntArg ye]))))
              else Inr text_string) (\<lambda>text_string.
      bind_e (if request_type = REQ_TIME
              then bind_e (dict_get STRINGS lang_code) (\<lambda>ts.
                   bind_e (py_index ts 1) (\<lambda>t.
                   format t [IntArg ho, IntArg mi]))
              else Inr text_string) (\<lambda>text_string.
      bind_e (str_encode text_string) (\<lambda>enc.
      let len = length enc;
          packet = replicate (13 + len) (0 :: byte) in
      bind_e (to_bytes2 MAGIC_NUMBER) (\<lambda>b.
      let packet = set_slice packet 0 2 b in
      bind_e (to_bytes2 DT_RES) (\<lambda>b.
      let packet = set_slice packet 2 4 b in
      bind_e (to_bytes2 lang_code) (\<lambda>b.
      let packet = set_slice packet 4 6 b in
      bind_e (to_bytes2 ye) (\<lambda>b.
      let packet = set_slice packet 6 8 b in
      bind_e (to_byte mo) (\<lambda>b8.
      bind_e (to_byte da) (\<lambda>b9.
      bind_e (to_byte ho) (\<lambda>b10.
      bind_e (to_byte mi) (\<lambda>b11.
      let packet = set_slice packet 8 12 [b8, b9, b10, b11] in
      bind_e (to_byte (int len)) (\<lambda>b12.
      let packet = packet[12 := b12] in
      bind_e (str_encode text_string) (\<lambda>enc.
      Inr (set_slice packet 13 (length packet) enc)))))))))))))))"

section \<open>Server: the receive loop\<close>

type_synonym addr = "string \<times> nat"

text \<open>
  What one \<open>select\<close> call of the loop delivers: nothing within the timeout, or a first
  readable socket (given by its port) with the datagram and sender that \<open>recvfrom\<close>
  returns there and the time \<open>datetime.now()\<close> shows when the response is built.
\<close>

datatype event = Idle | Ready nat "byte list" addr datetime

text \<open>The dictionary \<open>languages\<close>; a later key replaces an equal earlier one.\<close>

definition languages :: "nat \<Rightarrow> nat \<Rightarrow> nat \<Rightarrow> (nat \<rightharpoonup> int)" where
  "languages eng_port mao_port ger_port =
     [eng_port \<mapsto> 0x1, mao_port \<mapsto> 0x2, ger_port \<mapsto> 0x3]"

text \<open>
  One pass through the body of the \<open>while True\<close> loop of \<open>socket_setup\<close>. The state
  is the list of datagrams sent so far, each with its destination; log output is left out.
  The test \<open>if request:\<close> is Python's truth value: false for \<open>None\<close> and for the
  \<open>int\<close> 0, true for every other \<open>int\<close>.
\<close>

fun loop_body ::
  "(nat \<rightharpoonup> int) \<Rightarrow> event \<Rightarrow> (addr \<times> byte list) list
     \<Rightarrow> py_error + (addr \<times> byte list) list" where
  "loop_body langs Idle sent = Inr sent"
| "loop_body langs (Ready port received_packet addr now) sent =
     (case process_packet_server received_packet of
        None \<Rightarrow> Inr sent
      | Some request \<Rightarrow>
          if request \<noteq> 0
          then bind_e (dict_get langs port) (\<lambda>lang.
               bind_e (create_packet request lang now) (\<lambda>to_send.
               Inr (sent @ [(addr, to_send)])))
          else Inr sent)"

text \<open>
  The loop over a finite prefix of what the sockets deliver: the datagrams sent when
  that prefix has been handled, or the exception that ended the process.
\<close>

fun receive_loop ::
  "(nat \<rightharpoonup> int) \<Rightarrow> event list \<Rightarrow> (addr \<times> byte list) list
     \<Rightarrow> py_error + (addr \<times> byte list) list" where
  "receive_loop langs [] sent = Inr sent"
| "receive_loop langs (ev # evs) sent =
     bind_e (loop_body langs ev sent) (\<lambda>sent'. receive_loop langs evs sent')"

section \<open>Client: the exchange over the socket\<close>

text \<open>
  What the network does during one run of the client: whether the socket can be
  created, and the datagram with its sender that arrives within the timeout, if any.
\<close>

record network =
  socket_created :: bool
  reply :: "(byte list \<times> addr) option"

datatype socket_state = NoSocket | SockOpen | SockClosed

text \<open>
  \<open>socket_open\<close> of client.py, without its log output. The result is the state of
  the socket when the function is left, and the received packet; \<open>None\<close> stands for
  leaving through \<open>sys.exit()\<close>. Only the path on which a datagram was received
  reaches \<open>sock.close()\<close>.
\<close>

definition socket_open ::
  "network \<Rightarrow> string \<Rightarrow> nat \<Rightarrow> byte list \<Rightarrow> socket_state \<times> (byte list \<times> addr) option"
where
  "socket_open net host_addr port_num transmit_packet =
     (if \<not> socket_created net then (NoSocket, None)
      else
        let sock = SockOpen in
        (case reply net of
           None \<Rightarrow> (sock, None)
         | Some received_packet \<Rightarrow>
             let sock = SockClosed in (sock, Some received_packet)))"

section \<open>Client: checking and printing the DT-Response\<close>

text \<open>How a run of \<open>process_packet\<close> ends.\<close>

datatype ending = Returned | SysExit | Raised py_error

text \<open>The header fields read in lines 135 to 143, once the length is at least 13.\<close>

record fields =
  rec_magic_num :: int
  rec_packet_type :: int
  rec_lang_code :: int
  rec_year :: int
  rec_month :: int
  rec_day :: int
  rec_hour :: int
  rec_min :: int
  rec_len :: int

definition read_fields :: "byte list \<Rightarrow> fields" where
  "read_fields packet =
     \<lparr> rec_magic_num = from_bytes (slice packet 0 2),
       rec_packet_type = from_bytes (slice packet 2 4),
       rec_lang_code = from_bytes (slice packet 4 6),
       rec_year = from_bytes (slice packet 6 8),
       rec_month = uint (packet ! 8),
       rec_day = uint (packet ! 9),
       rec_hour = uint (packet ! 10),
       rec_min = uint (packet ! 11),
       rec_len = uint (packet ! 12) \<rparr>"

text \<open>
  The reasons for which the client refuses a packet, one for each message it prints
  before \<open>sys.exit()\<close>.
\<close>

datatype reject =
    Malformed | BadMagic | WrongPacketType | InvalidLanguage | InvalidYear
  | InvalidMonth | InvalidDay | InvalidHour | InvalidMinute | LengthMismatch

fun message :: "reject \<Rightarrow> ustr" where
  "message Malformed = asc ''[ALERT] ** Malformed packet received''"
| "message BadMagic = asc ''[WARN] ** Non DT packet received''"
| "message WrongPacketType = asc ''[WARN] ** Non DT-Response packet received''"
| "message InvalidLanguage = asc ''[WARN] ** Invalid language code in received DT-Response''"
| "message InvalidYear = asc ''[WARN] ** Invalid year number in received DT-Response''"
| "message InvalidMonth = asc ''[WARN] ** Invalid month number in received DT-Response''"
| "message InvalidDay = asc ''[WARN] ** Invalid day number in received DT-Response''"
| "message InvalidHour = asc ''[WARN] ** Invalid hour number in received DT-Response''"
| "message InvalidMinute = asc ''[WARN] ** Invalid minute number in received DT-Response''"
| "message LengthMismatch = asc ''[WARN] ** Packet lengths do not match''"

text \<open>The chain of conditionals in lines 146 to 172: the first one that fires.\<close>

definition check_fields :: "fields \<Rightarrow> nat \<Rightarrow> reject option" where
  "check_fields f packet_len =
     (if rec_magic_num f \<noteq> MAGIC_NUMBER then Some BadMagic
      else if rec_packet_type f \<noteq> DT_RES then Some WrongPacketType
      else if rec_lang_code f \<notin> set [0x1, 0x2, 0x3] then Some InvalidLanguage
      else if rec_year f \<ge> 2100 then Some InvalidYear
      else if rec_month f < 1 \<or> rec_month f > 12 then Some InvalidMonth
      else if rec_day f < 1 \<or> rec_day f > 31 then Some InvalidDay
      else if rec_hour f < 0 \<or> rec_hour f > 24 then Some InvalidHour
      else if rec_min f < 0 \<or> rec_min f > 60 then Some InvalidMinute
      else if rec_len f + 13 \<noteq> int packet_len then Some LengthMismatch
      else None)"

text \<open>The three output templates; code point 9 is the tab character.\<close>

definition type_str :: "fmt_piece list" where
  "type_str = [Lit (asc ''[DATA] -- Magic Number: ''), Field 0,
               Lit ([9, 9] @ asc ''Packet type: ''), Field 1,
               Lit ([9, 9] @ asc ''Language code: ''), Field 2]"

definition date_str :: "fmt_piece list" where
  "date_str = [Lit (asc ''[DATA] -- Date: ''), FieldD 0 4, Lit (asc ''-''), FieldD 1 2,
               Lit (asc ''-''), FieldD 2 2, Lit ([9, 9] @ asc ''Time: ''), FieldD 3 2,
               Lit (asc '':''), FieldD 4 2]"

definition text_str :: "fmt_piece list" where
  "text_str = [Lit (asc ''[DATA] -- Text: ''), Field 0]"

text \<open>
  \<open>process_packet\<close> of client.py: the lines printed and how the run ends. The text is
  decoded last, after the first two lines have been printed.
\<close>

definition process_packet_client :: "byte list \<Rightarrow> ustr list \<times> ending" where
  "process_packet_client packet =
     (if length packet < 13 then ([message Malformed], SysExit)
      else
        let f = read_fields packet in
        (case check_fields f (length packet) of
           Some r \<Rightarrow> ([message r], SysExit)
         | None \<Rightarrow>
            (case format type_str [StrArg (py_hex (rec_magic_num f)),
                                   IntArg (rec_packet_type f), IntArg (rec_lang_code f)] of
               Inl e \<Rightarrow> ([], Raised e)
             | Inr l1 \<Rightarrow>
            (case format date_str [IntArg (rec_day f), IntArg (rec_month f),
                                   IntArg (rec_year f), IntArg (rec_hour f),
                                   IntArg (rec_min f)] of
               Inl e \<Rightarrow> ([l1], Raised e)
             | Inr l2 \<Rightarrow>
            (case bytes_decode (drop 13 packet) of
               Inl e \<Rightarrow> ([l1, l2], Raised e)
             | Inr t \<Rightarrow>
            (case format text_str [StrArg t] of
               Inl e \<Rightarrow> ([l1, l2], Raised e)
             | Inr l3 \<Rightarrow> ([l1, l2, l3], Returned)))))))"

text \<open>
  \<open>main\<close> of client.py after argument parsing: the state of the socket when the
  process ends, what was printed by \<open>process_packet\<close>, and how the run ended.
\<close>

definition client_main ::
  "network \<Rightarrow> ustr \<Rightarrow> string \<Rightarrow> nat \<Rightarrow> socket_state \<times> ustr list \<times> ending" where
  "client_main net req_type host_addr host_port =
     (case packet_create req_type of
        Inl e \<Rightarrow> (NoSocket, [], Raised e)
      | Inr tx_packet \<Rightarrow>
          (case socket_open net host_addr host_port tx_packet of
             (sock, None) \<Rightarrow> (sock, [], SysExit)
           | (sock, Some return_packet) \<Rightarrow>
               (sock, process_packet_client (fst return_packet))))"

section \<open>The order of checks as the specification words it\<close>

text \<open>
  The specification lists the checks of the response decoder in a fixed order: total
  length at least 13, magic number, packet type, language code, year, month, day, hour,
  minute, declared text length against the actual length. Each entry below pairs the
  reason reported on failure with the condition that must hold; the fields are the
  big-endian integers at their offsets. \<open>first_failure\<close> walks such a list and
  stops at the first condition that does not hold.
\<close>

definition u16 :: "byte list \<Rightarrow> nat \<Rightarrow> int" where
  "u16 p i = uint (p ! i) * 256 + uint (p ! (i + 1))"

definition u8 :: "byte list \<Rightarrow> nat \<Rightarrow> int" where
  "u8 p i = uint (p ! i)"

definition spec_check_order :: "(reject \<times> (byte list \<Rightarrow> bool)) list" where
  "spec_check_order =
     [(Malformed, \<lambda>p. 13 \<le> length p),
      (BadMagic, \<lambda>p. u16 p 0 = 0x497E),
      (WrongPacketType, \<lambda>p. u16 p 2 = 2),
      (InvalidLanguage, \<lambda>p. u16 p 4 \<in> {1, 2, 3}),
      (InvalidYear, \<lambda>p. u16 p 6 < 2100),
      (InvalidMonth, \<lambda>p. 1 \<le> u8 p 8 \<and> u8 p 8 \<le> 12),
      (InvalidDay, \<lambda>p. 1 \<le> u8 p 9 \<and> u8 p 9 \<le> 31),
      (InvalidHour, \<lambda>p. 0 \<le> u8 p 10 \<and> u8 p 10 \<le> 24),
      (InvalidMinute, \<lambda>p. 0 \<le> u8 p 11 \<and> u8 p 11 \<le> 60),
      (LengthMismatch, \<lambda>p. 13 + u8 p 12 = int (length p))]"

fun first_failure ::
  "(reject \<times> (byte list \<Rightarrow> bool)) list \<Rightarrow> byte list \<Rightarrow> reject option" where
  "first_failure [] p = None"
| "first_failure ((r, holds) # checks) p =
     (if holds p then first_failure checks p else Some r)"

section \<open>An example response\<close>

text \<open>
  The DT-Response to a time request on the English port at 09:05 on 21 August 2018:
  13 header bytes and the 25 bytes of the text.
\<close>

definition sample_response :: "byte list" where
  "sample_response =
     [0x49, 0x7E, 0, 2, 0, 1, 0x07, 0xE2, 8, 21, 9, 5, 25]
     @ map of_char ''The current time is 09:05''"

section \<open>Properties\<close>

subsection \<open>Basic facts\<close>

lemma bind_e_simps [simp]:
  "bind_e (Inl e) f = Inl e"
  "bind_e (Inr x) f = f x"
  by (simp_all add: bind_e_def)

lemma from_bytes_simps:
  "from_bytes [] = 0"
  "from_bytes [a] = uint a"
  "from_bytes [a, b] = uint a * 256 + uint b"
  by (simp_all add: from_bytes_def)

lemma to_bytes2_consts:
  "to_bytes2 MAGIC_NUMBER = Inr [0x49, 0x7E]"
  "to_bytes2 DT_REQ = Inr [0, 1]"
  "to_bytes2 DT_RES = Inr [0, 2]"
  "to_bytes2 REQ_DATE = Inr [0, 1]"
  "to_bytes2 REQ_TIME = Inr [0, 2]"
  by (simp_all add: to_bytes2_def consts_defs)

lemma packet_create_value:
  "packet_create req_type =
     Inr [0x49, 0x7E, 0, 1, 0,
          if req_type = asc ''time'' then 2 else if req_type = asc ''date'' then 1 else 0]"
  by (simp add: packet_create_def to_bytes2_consts set_slice_def numeral_eq_Suc asc_def)

subsection \<open>The request encoder of the client\<close>

text \<open>
  Claim C9. For every request type argument other than \<open>'date'\<close> and \<open>'time'\<close>, the
  client's request encoder does not fail: it returns the six bytes
  \<open>49 7E 00 01 00 00\<close>, that is, magic number and packet type set and a zero request
  type field.
\<close>

theorem packet_create_unrecognised:
  assumes "req_type \<noteq> asc ''date''" and "req_type \<noteq> asc ''time''"
  shows "packet_create req_type = Inr [0x49, 0x7E, 0, 1, 0, 0]"
  using assms
  by (simp add: packet_create_value)

theorem packet_create_unrecognised_witness:
  "asc ''day'' \<noteq> asc ''date'' \<and> asc ''day'' \<noteq> asc ''time''
   \<and> packet_create (asc ''day'') = Inr [0x49, 0x7E, 0, 1, 0, 0]"
  using packet_create_unrecognised [of "asc ''day''"]
  by (simp add: asc_def)

subsection \<open>The server's handling of requests\<close>

text \<open>
  Claim C4 says that a six-byte datagram with the right magic number and packet type
  1 is decoded to the 16-bit big-endian value of bytes 4 and 5. The server reads the
  slice \<open>packet[5:6]\<close>, that is byte 5 alone: for the datagram \<open>49 7E 00 01 01 00\<close>,
  whose request type field holds 256, it returns 0.
\<close>

theorem server_request_type_low_byte_only:
  "process_packet_server [0x49, 0x7E, 0, 1, 1, 0] = Some 0
   \<and> from_bytes (slice [0x49, 0x7E, 0, 1, 1, 0] 4 6) = 256"
  by (simp add: process_packet_server_def from_bytes_simps slice_def consts_defs)

text \<open>
  Claim C3 says that every structurally valid request is answered, with an empty text
  when the request type is neither 1 nor 2. For the valid request
  \<open>49 7E 00 01 00 00\<close> (request type 0) \<open>process_packet\<close> returns the \<open>int\<close> 0, which
  the test \<open>if request:\<close> takes for false: nothing is sent, whatever the socket, the
  sender and the time.
\<close>

theorem zero_request_type_dropped:
  "process_packet_server [0x49, 0x7E, 0, 1, 0, 0] = Some 0
   \<and> loop_body langs (Ready port [0x49, 0x7E, 0, 1, 0, 0] addr now) sent = Inr sent"
  by (simp add: process_packet_server_def from_bytes_simps slice_def consts_defs)

text \<open>
  Claim C7. A datagram that \<open>process_packet\<close> refuses (length other than 6, wrong
  magic number, or packet type other than 1) makes the server send nothing: the loop
  body leaves the list of sent datagrams as it was, raises nothing, and the loop goes
  on with what the sockets deliver next.
\<close>

theorem rejected_request_dropped:
  assumes "length p \<noteq> 6 \<or> from_bytes (slice p 0 2) \<noteq> MAGIC_NUMBER
           \<or> from_bytes (slice p 2 4) \<noteq> DT_REQ"
  shows "process_packet_server p = None
         \<and> loop_body langs (Ready port p addr now) sent = Inr sent
         \<and> receive_loop langs (Ready port p addr now # evs) sent
             = receive_loop langs evs sent"
proof -
  from assms have none: "process_packet_server p = None"
    by (auto simp: process_packet_server_def)
  then have "loop_body langs (Ready port p addr now) sent = Inr sent"
    by simp
  then show ?thesis
    using none by simp
qed

theorem rejected_request_dropped_witness:
  "length [0xFF, 0xFF, 0, 1, 0, 2, 0, 0 :: byte] = 8
   \<and> from_bytes (slice [0xFF, 0xFF, 0, 1, 0, 2, 0, 0] 0 2) = 0xFFFF
   \<and> process_packet_server [0xFF, 0xFF, 0, 1, 0, 2, 0, 0] = None
   \<and> loop_body (languages 5001 5002 5003)
        (Ready 5001 [0xFF, 0xFF, 0, 1, 0, 2, 0, 0] (''10.0.0.7'', 40000)
           \<lparr>year = 2018, month = 8, day = 21, hour = 9, minute = 5\<rparr>) [] = Inr []
   \<and> receive_loop (languages 5001 5002 5003)
        [Ready 5001 [0xFF, 0xFF, 0, 1, 0, 2, 0, 0] (''10.0.0.7'', 40000)
           \<lparr>year = 2018, month = 8, day = 21, hour = 9, minute = 5\<rparr>] [] = Inr []"
proof -
  have h: "length [0xFF, 0xFF, 0, 1, 0, 2, 0, 0 :: byte] \<noteq> 6
      \<or> from_bytes (slice [0xFF, 0xFF, 0, 1, 0, 2, 0, 0] 0 2) \<noteq> MAGIC_NUMBER
      \<or> from_bytes (slice [0xFF, 0xFF, 0, 1, 0, 2, 0, 0] 2 4) \<noteq> DT_REQ"
    by simp
  show ?thesis
    using h rejected_request_dropped [OF h, of "languages 5001 5002 5003" 5001
      "(''10.0.0.7'', 40000)"
      "\<lparr>year = 2018, month = 8, day = 21, hour = 9, minute = 5\<rparr>" "[]" "[]"]
    by (simp add: from_bytes_simps slice_def)
qed

subsection \<open>The socket of the client\<close>

text \<open>
  Claim C8 says that the client closes its socket on every exit path. When no datagram
  arrives within the timeout, \<open>socket_open\<close> leaves through \<open>sys.exit()\<close> before its
  \<open>sock.close()\<close> is reached: the socket is still open when the process ends.
\<close>

theorem timeout_leaves_socket_open:
  "socket_open \<lparr>socket_created = True, reply = None\<rparr> host_addr port_num tx
     = (SockOpen, None)
   \<and> client_main \<lparr>socket_created = True, reply = None\<rparr> req_type host_addr port_num
     = (SockOpen, [], SysExit)"
  by (simp add: socket_open_def client_main_def packet_create_value)

text \<open>On the other paths the socket is closed before the packet is examined.\<close>

lemma received_closes_socket:
  "socket_created net \<Longrightarrow> reply net = Some r \<Longrightarrow>
   fst (client_main net req_type host_addr port_num) = SockClosed"
  by (simp add: socket_open_def client_main_def packet_create_value)

subsection \<open>The response decoder of the client\<close>

lemma format_type_str:
  "format type_str [StrArg h, IntArg t, IntArg l] =
     Inr (asc ''[DATA] -- Magic Number: '' @ h @ [9, 9] @ asc ''Packet type: '' @ py_str t
          @ [9, 9] @ asc ''Language code: '' @ py_str l)"
  by (simp add: type_str_def)

lemma format_date_str:
  "format date_str [IntArg d, IntArg mo, IntArg y, IntArg h, IntArg mi] =
     Inr (asc ''[DATA] -- Date: '' @ pad_d 4 d @ asc ''-'' @ pad_d 2 mo @ asc ''-''
          @ pad_d 2 y @ [9, 9] @ asc ''Time: '' @ pad_d 2 h @ asc '':'' @ pad_d 2 mi)"
  by (simp add: date_str_def)

lemma format_text_str:
  "format text_str [StrArg t] = Inr (asc ''[DATA] -- Text: '' @ t)"
  by (simp add: text_str_def)

lemma client_rejects:
  "13 \<le> length p \<Longrightarrow> check_fields (read_fields p) (length p) = Some r \<Longrightarrow>
   process_packet_client p = ([message r], SysExit)"
  by (simp add: process_packet_client_def)

lemma client_passes:
  "13 \<le> length p \<Longrightarrow> check_fields (read_fields p) (length p) = None \<Longrightarrow>
   snd (process_packet_client p) =
     (case utf8_decode (drop 13 p) of None \<Rightarrow> Raised UnicodeDecodeError | Some t \<Rightarrow> Returned)"
  by (simp add: process_packet_client_def format_type_str format_date_str format_text_str
      bytes_decode_def Let_def split: option.splits)

lemma client_returned_iff:
  "snd (process_packet_client p) = Returned \<longleftrightarrow>
     13 \<le> length p \<and> check_fields (read_fields p) (length p) = None
     \<and> utf8_decode (drop 13 p) \<noteq> None"
  by (auto simp: process_packet_client_def format_type_str format_date_str format_text_str
      bytes_decode_def Let_def split: option.splits)

lemma slice_pair:
  assumes "Suc i < length p"
  shows "slice p i (Suc (Suc i)) = [p ! i, p ! Suc i]"
proof -
  have "drop i p = p ! i # drop (Suc i) p"
    using assms by (simp add: Cons_nth_drop_Suc)
  moreover have "drop (Suc i) p = p ! Suc i # drop (Suc (Suc i)) p"
    using assms by (simp add: Cons_nth_drop_Suc)
  ultimately show ?thesis
    by (simp add: slice_def)
qed

lemma read_fields_nth:
  assumes "13 \<le> length p"
  shows "read_fields p =
     \<lparr> rec_magic_num = uint (p ! 0) * 256 + uint (p ! 1),
       rec_packet_type = uint (p ! 2) * 256 + uint (p ! 3),
       rec_lang_code = uint (p ! 4) * 256 + uint (p ! 5),
       rec_year = uint (p ! 6) * 256 + uint (p ! 7),
       rec_month = uint (p ! 8),
       rec_day = uint (p ! 9),
       rec_hour = uint (p ! 10),
       rec_min = uint (p ! 11),
       rec_len = uint (p ! 12) \<rparr>"
proof -
  have "slice p 0 2 = [p ! 0, p ! 1]" "slice p 2 4 = [p ! 2, p ! 3]"
       "slice p 4 6 = [p ! 4, p ! 5]" "slice p 6 8 = [p ! 6, p ! 7]"
    using assms slice_pair [of 0 p] slice_pair [of 2 p] slice_pair [of 4 p]
      slice_pair [of 6 p]
    by (simp_all add: numeral_eq_Suc)
  then show ?thesis
    by (simp add: read_fields_def from_bytes_simps)
qed


lemma check_fields_nth:
  assumes "13 \<le> length p"
  shows "check_fields (read_fields p) (length p) =
     (if uint (p ! 0) * 256 + uint (p ! 1) \<noteq> 0x497E then Some BadMagic
      else if uint (p ! 2) * 256 + uint (p ! 3) \<noteq> 2 then Some WrongPacketType
      else if uint (p ! 4) * 256 + uint (p ! 5) \<notin> {1, 2, 3} then Some InvalidLanguage
      else if 2100 \<le> uint (p ! 6) * 256 + uint (p ! 7) then Some InvalidYear
      else if uint (p ! 8) < 1 \<or> 12 < uint (p ! 8) then Some InvalidMonth
      else if uint (p ! 9) < 1 \<or> 31 < uint (p ! 9) then Some InvalidDay
      else if 24 < uint (p ! 10) then Some InvalidHour
      else if 60 < uint (p ! 11) then Some InvalidMinute
      else if uint (p ! 12) + 13 \<noteq> int (length p) then Some LengthMismatch
      else None)"
  using assms by (simp add: read_fields_nth check_fields_def consts_defs)

lemma accepted_iff:
  "snd (process_packet_client p) = Returned \<longleftrightarrow>
     13 \<le> length p
     \<and> uint (p ! 0) * 256 + uint (p ! 1) = 0x497E
     \<and> uint (p ! 2) * 256 + uint (p ! 3) = 2
     \<and> uint (p ! 4) * 256 + uint (p ! 5) \<in> {1, 2, 3}
     \<and> uint (p ! 6) * 256 + uint (p ! 7) < 2100
     \<and> 1 \<le> uint (p ! 8) \<and> uint (p ! 8) \<le> 12
     \<and> 1 \<le> uint (p ! 9) \<and> uint (p ! 9) \<le> 31
     \<and> uint (p ! 10) \<le> 24
     \<and> uint (p ! 11) \<le> 60
     \<and> uint (p ! 12) + 13 = int (length p)
     \<and> utf8_decode (drop 13 p) \<noteq> None"
proof (cases "13 \<le> length p")
  case True
  then show ?thesis
    unfolding client_returned_iff check_fields_nth [OF True]
    by (simp split: if_splits)
next
  case False
  then show ?thesis
    by (simp add: client_returned_iff)
qed

lemma first_failure_checks:
  "first_failure spec_check_order p =
     (if length p < 13 then Some Malformed else check_fields (read_fields p) (length p))"
proof (cases "13 \<le> length p")
  case True
  then show ?thesis
    unfolding check_fields_nth [OF True]
    by (simp add: spec_check_order_def u16_def u8_def) 
next
  case False
  then show ?thesis
    by (simp add: spec_check_order_def)
qed

lemma rejects_nth:
  assumes "13 \<le> length p"
    and "(if uint (p ! 0) * 256 + uint (p ! 1) \<noteq> 0x497E then Some BadMagic
      else if uint (p ! 2) * 256 + uint (p ! 3) \<noteq> 2 then Some WrongPacketType
      else if uint (p ! 4) * 256 + uint (p ! 5) \<notin> {1, 2, 3} then Some InvalidLanguage
      else if 2100 \<le> uint (p ! 6) * 256 + uint (p ! 7) then Some InvalidYear
      else if uint (p ! 8) < 1 \<or> 12 < uint (p ! 8) then Some InvalidMonth
      else if uint (p ! 9) < 1 \<or> 31 < uint (p ! 9) then Some InvalidDay
      else if 24 < uint (p ! 10) then Some InvalidHour
      else if 60 < uint (p ! 11) then Some InvalidMinute
      else if uint (p ! 12) + 13 \<noteq> int (length p) then Some LengthMismatch
      else None) = Some r"
  shows "process_packet_client p = ([message r], SysExit)"
  using assms client_rejects [of p r] check_fields_nth [of p] by simp

lemma sample_decodes:
  "utf8_decode (map of_char ''The current time is 09:05'') = Some (asc ''The current time is 09:05'')"
  by (simp add: asc_def)

lemma sample_accepted: "snd (process_packet_client sample_response) = Returned"
  unfolding accepted_iff sample_response_def
  by (simp add: sample_decodes)

lemma sample_nth12: "sample_response ! 12 = 25"
  by (simp add: sample_response_def)

lemma digits_small: "n < 10 \<Longrightarrow> digits n = [48 + n]"
  by (subst digits.simps) simp

lemma digits_two: "10 \<le> n \<Longrightarrow> n < 100 \<Longrightarrow> digits n = [48 + n div 10, 48 + n mod 10]"
  by (subst digits.simps) (simp add: digits_small)

lemma replicate_small:
  "replicate 2 x = [x, x]" "replicate 3 x = [x, x, x]"
  by (simp_all add: numeral_2_eq_2 numeral_3_eq_3)

lemma pad_d4_day:
  assumes "1 \<le> d" "d \<le> 31"
  shows "pad_d 4 d = 48 # 48 # (if d < 10 then [48, 48 + nat d]
                                 else [48 + nat d div 10, 48 + nat d mod 10])"
proof (cases "d < 10")
  case True
  with assms have "digits (nat d) = [48 + nat d]" by (simp add: digits_small)
  with True assms show ?thesis by (simp add: pad_d_def zfill_def replicate_small)
next
  case False
  with assms have "digits (nat d) = [48 + nat d div 10, 48 + nat d mod 10]"
    by (simp add: digits_two)
  with False assms show ?thesis by (simp add: pad_d_def zfill_def replicate_small)
qed


lemma client_lines:
  assumes "13 \<le> length p" and "check_fields (read_fields p) (length p) = None"
    and "utf8_decode (drop 13 p) = Some t"
  shows "process_packet_client p =
     ([asc ''[DATA] -- Magic Number: '' @ py_hex (rec_magic_num (read_fields p)) @ [9, 9]
         @ asc ''Packet type: '' @ py_str (rec_packet_type (read_fields p)) @ [9, 9]
         @ asc ''Language code: '' @ py_str (rec_lang_code (read_fields p)),
       asc ''[DATA] -- Date: '' @ pad_d 4 (rec_day (read_fields p)) @ asc ''-''
         @ pad_d 2 (rec_month (read_fields p)) @ asc ''-''
         @ pad_d 2 (rec_year (read_fields p)) @ [9, 9] @ asc ''Time: ''
         @ pad_d 2 (rec_hour (read_fields p)) @ asc '':'' @ pad_d 2 (rec_min (read_fields p)),
       asc ''[DATA] -- Text: '' @ t], Returned)"
  using assms
  by (simp add: process_packet_client_def format_type_str format_date_str format_text_str
      bytes_decode_def Let_def)

lemma digits_2018: "digits 2018 = asc ''2018''"
  by (simp add: digits.simps asc_def)

text \<open>
  Claim C6. Boundary acceptance: a response that the client accepts is still accepted
  when its hour is set to 24, its minute to 60, its year to 2099 (bytes \<open>08 33\<close>), its
  month to 12 or its day to 31, one at a time or all together.
\<close>

theorem boundary_values_accepted:
  assumes "snd (process_packet_client p) = Returned"
  shows "snd (process_packet_client (p[10 := 24])) = Returned
       \<and> snd (process_packet_client (p[11 := 60])) = Returned
       \<and> snd (process_packet_client (p[6 := 0x08, 7 := 0x33])) = Returned
       \<and> snd (process_packet_client (p[8 := 12])) = Returned
       \<and> snd (process_packet_client (p[9 := 31])) = Returned
       \<and> snd (process_packet_client (p[6 := 0x08, 7 := 0x33, 8 := 12, 9 := 31,
                                        10 := 24, 11 := 60])) = Returned"
proof -
  note v = assms [unfolded accepted_iff]
  have "snd (process_packet_client (p[10 := 24])) = Returned"
    unfolding accepted_iff using v by simp
  moreover have "snd (process_packet_client (p[11 := 60])) = Returned"
    unfolding accepted_iff using v by simp
  moreover have "snd (process_packet_client (p[6 := 0x08, 7 := 0x33])) = Returned"
    unfolding accepted_iff using v by simp
  moreover have "snd (process_packet_client (p[8 := 12])) = Returned"
    unfolding accepted_iff using v by simp
  moreover have "snd (process_packet_client (p[9 := 31])) = Returned"
    unfolding accepted_iff using v by simp
  moreover have "snd (process_packet_client (p[6 := 0x08, 7 := 0x33, 8 := 12, 9 := 31,
                                        10 := 24, 11 := 60])) = Returned"
    unfolding accepted_iff using v by simp
  ultimately show ?thesis by simp
qed


theorem boundary_values_accepted_witness:
  "snd (process_packet_client sample_response) = Returned
   \<and> snd (process_packet_client (sample_response[10 := 24])) = Returned
   \<and> snd (process_packet_client (sample_response[11 := 60])) = Returned
   \<and> snd (process_packet_client (sample_response[6 := 0x08, 7 := 0x33])) = Returned
   \<and> snd (process_packet_client (sample_response[8 := 12])) = Returned
   \<and> snd (process_packet_client (sample_response[9 := 31])) = Returned"
  using boundary_values_accepted [OF sample_accepted] sample_accepted by simp

text \<open>
  Claim C5. The client evaluates its checks in the order the specification gives and
  stops at the first that fails: when some check of \<open>spec_check_order\<close> fails, the
  client prints the message of the earliest failing one and exits; when none fails,
  the run ends by returning or, if the text is not valid UTF-8, with
  UnicodeDecodeError.
\<close>

theorem checks_in_fixed_order:
  "case first_failure spec_check_order p of
     Some r \<Rightarrow> process_packet_client p = ([message r], SysExit)
   | None \<Rightarrow>
       (case utf8_decode (drop 13 p) of
          None \<Rightarrow> snd (process_packet_client p) = Raised UnicodeDecodeError
        | Some t \<Rightarrow> snd (process_packet_client p) = Returned)"
proof (cases "13 \<le> length p")
  case True
  show ?thesis
  proof (cases "check_fields (read_fields p) (length p)")
    case None
    with True show ?thesis
      by (simp add: first_failure_checks client_passes split: option.splits)
  next
    case (Some r)
    with True show ?thesis
      by (simp add: first_failure_checks client_rejects)
  qed
next
  case False
  then show ?thesis
    by (simp add: first_failure_checks process_packet_client_def)
qed

text \<open>
  Claim C2. Rejection completeness: take a response the client accepts and corrupt one
  field (a magic number other than \<open>0x497E\<close>, a packet type other than 2, language
  code 0 or 4, year 2100, month 0 or 13, day 0 or 32, hour 25, minute 61, or a text
  length one more or one less than the real one). The client then exits with the
  message for exactly that field.
\<close>

theorem single_corruption_rejected:
  assumes "snd (process_packet_client p) = Returned"
    and "from_bytes [a, b] \<noteq> MAGIC_NUMBER"
    and "from_bytes [c, d] \<noteq> DT_RES"
    and "uint n = uint (p ! 12) + 1 \<or> uint n + 1 = uint (p ! 12)"
  shows "process_packet_client (p[0 := a, 1 := b]) = ([message BadMagic], SysExit)
       \<and> process_packet_client (p[2 := c, 3 := d]) = ([message WrongPacketType], SysExit)
       \<and> process_packet_client (p[4 := 0, 5 := 0]) = ([message InvalidLanguage], SysExit)
       \<and> process_packet_client (p[4 := 0, 5 := 4]) = ([message InvalidLanguage], SysExit)
       \<and> process_packet_client (p[6 := 0x08, 7 := 0x34]) = ([message InvalidYear], SysExit)
       \<and> process_packet_client (p[8 := 0]) = ([message InvalidMonth], SysExit)
       \<and> process_packet_client (p[8 := 13]) = ([message InvalidMonth], SysExit)
       \<and> process_packet_client (p[9 := 0]) = ([message InvalidDay], SysExit)
       \<and> process_packet_client (p[9 := 32]) = ([message InvalidDay], SysExit)
       \<and> process_packet_client (p[10 := 25]) = ([message InvalidHour], SysExit)
       \<and> process_packet_client (p[11 := 61]) = ([message InvalidMinute], SysExit)
       \<and> process_packet_client (p[12 := n]) = ([message LengthMismatch], SysExit)"
proof -
  note v = assms(1) [unfolded accepted_iff]
  have m: "uint a * 256 + uint b \<noteq> 0x497E" and t: "uint c * 256 + uint d \<noteq> 2"
    using assms(2,3) by (simp_all add: from_bytes_simps consts_defs)
  have ne: "p \<noteq> []" "Suc 0 < length p"
    using v by auto
  have "process_packet_client (p[0 := a, 1 := b]) = ([message BadMagic], SysExit)"
    using v m ne by (intro rejects_nth) simp_all
  moreover have "process_packet_client (p[2 := c, 3 := d]) = ([message WrongPacketType], SysExit)"
    using v t by (intro rejects_nth) simp_all
  moreover have "process_packet_client (p[4 := 0, 5 := 0]) = ([message InvalidLanguage], SysExit)"
    using v by (intro rejects_nth) simp_all
  moreover have "process_packet_client (p[4 := 0, 5 := 4]) = ([message InvalidLanguage], SysExit)"
    using v by (intro rejects_nth) simp_all
  moreover have "process_packet_client (p[6 := 0x08, 7 := 0x34]) = ([message InvalidYear], SysExit)"
    using v by (intro rejects_nth) simp_all
  moreover have "process_packet_client (p[8 := 0]) = ([message InvalidMonth], SysExit)"
    using v by (intro rejects_nth) simp_all
  moreover have "process_packet_client (p[8 := 13]) = ([message InvalidMonth], SysExit)"
    using v by (intro rejects_nth) simp_all
  moreover have "process_packet_client (p[9 := 0]) = ([message InvalidDay], SysExit)"
    using v by (intro rejects_nth) simp_all
  moreover have "process_packet_client (p[9 := 32]) = ([message InvalidDay], SysExit)"
    using v by (intro rejects_nth) simp_all
  moreover have "process_packet_client (p[10 := 25]) = ([message InvalidHour], SysExit)"
    using v by (intro rejects_nth) simp_all
  moreover have "process_packet_client (p[11 := 61]) = ([message InvalidMinute], SysExit)"
    using v by (intro rejects_nth) simp_all
  moreover have "process_packet_client (p[12 := n]) = ([message LengthMismatch], SysExit)"
    using v assms(4) by (intro rejects_nth) auto
  ultimately show ?thesis by simp
qed

theorem single_corruption_rejected_witness:
  "snd (process_packet_client sample_response) = Returned
   \<and> from_bytes [0xFF, 0xFF] = 0xFFFF
   \<and> from_bytes [0, 1] = 1
   \<and> uint (26 :: byte) = uint (sample_response ! 12) + 1
   \<and> process_packet_client (sample_response[0 := 0xFF, 1 := 0xFF]) = ([message BadMagic], SysExit)
   \<and> process_packet_client (sample_response[2 := 0, 3 := 1])
       = ([message WrongPacketType], SysExit)
   \<and> process_packet_client (sample_response[4 := 0, 5 := 4])
       = ([message InvalidLanguage], SysExit)
   \<and> process_packet_client (sample_response[6 := 0x08, 7 := 0x34])
       = ([message InvalidYear], SysExit)
   \<and> process_packet_client (sample_response[8 := 13]) = ([message InvalidMonth], SysExit)
   \<and> process_packet_client (sample_response[9 := 32]) = ([message InvalidDay], SysExit)
   \<and> process_packet_client (sample_response[10 := 25]) = ([message InvalidHour], SysExit)
   \<and> process_packet_client (sample_response[11 := 61]) = ([message InvalidMinute], SysExit)
   \<and> process_packet_client (sample_response[12 := 26]) = ([message LengthMismatch], SysExit)"
proof -
  have m: "from_bytes [0xFF, 0xFF] \<noteq> MAGIC_NUMBER" and t: "from_bytes [0, 1] \<noteq> DT_RES"
    by (simp_all add: from_bytes_simps consts_defs)
  have n: "uint (26 :: byte) = uint (sample_response ! 12) + 1
           \<or> uint (26 :: byte) + 1 = uint (sample_response ! 12)"
    by (simp add: sample_nth12)
  show ?thesis
    using single_corruption_rejected [OF sample_accepted m t n] sample_accepted
    by (simp add: from_bytes_simps sample_nth12)
qed



text \<open>
  Claim C10. For every response the client accepts, the second printed line gives the
  numeric fields in the order day, month, year: the day comes first, zero-filled to
  four characters (so it starts with two zeros), then the month, then the year in the
  last, two-character-wide position; it is not in year-month-day order.
\<close>

theorem date_line_day_month_year:
  assumes "snd (process_packet_client p) = Returned"
  shows "fst (process_packet_client p) ! 1 =
           asc ''[DATA] -- Date: '' @ pad_d 4 (uint (p ! 9)) @ asc ''-''
           @ pad_d 2 (uint (p ! 8)) @ asc ''-'' @ pad_d 2 (from_bytes (slice p 6 8))
           @ [9, 9] @ asc ''Time: '' @ pad_d 2 (uint (p ! 10)) @ asc '':''
           @ pad_d 2 (uint (p ! 11))
         \<and> length (pad_d 4 (uint (p ! 9))) = 4
         \<and> take 2 (pad_d 4 (uint (p ! 9))) = asc ''00''"
proof -
  from assms obtain t where len: "13 \<le> length p"
    and chk: "check_fields (read_fields p) (length p) = None"
    and dec: "utf8_decode (drop 13 p) = Some t"
    by (auto simp: client_returned_iff)
  from assms have day: "1 \<le> uint (p ! 9)" "uint (p ! 9) \<le> 31"
    by (simp_all add: accepted_iff)
  have "fst (process_packet_client p) ! 1 =
           asc ''[DATA] -- Date: '' @ pad_d 4 (uint (p ! 9)) @ asc ''-''
           @ pad_d 2 (uint (p ! 8)) @ asc ''-'' @ pad_d 2 (from_bytes (slice p 6 8))
           @ [9, 9] @ asc ''Time: '' @ pad_d 2 (uint (p ! 10)) @ asc '':''
           @ pad_d 2 (uint (p ! 11))"
    unfolding client_lines [OF len chk dec]
    by (simp add: read_fields_def)
  moreover have "length (pad_d 4 (uint (p ! 9))) = 4"
    by (simp add: pad_d4_day [OF day])
  moreover have "take 2 (pad_d 4 (uint (p ! 9))) = asc ''00''"
    by (simp add: pad_d4_day [OF day] asc_def)
  ultimately show ?thesis by simp
qed


theorem date_line_day_month_year_witness:
  "snd (process_packet_client sample_response) = Returned
   \<and> fst (process_packet_client sample_response) ! 1 =
       asc ''[DATA] -- Date: 0021-08-2018'' @ [9, 9] @ asc ''Time: 09:05''"
proof -
  have f: "sample_response ! 9 = 21" "sample_response ! 8 = 8" "sample_response ! 10 = 9"
    "sample_response ! 11 = 5" "slice sample_response 6 8 = [0x07, 0xE2]"
    by (simp_all add: sample_response_def slice_def)
  have d: "pad_d 4 21 = asc ''0021''" "pad_d 2 8 = asc ''08''" "pad_d 2 2018 = asc ''2018''"
    "pad_d 2 9 = asc ''09''" "pad_d 2 5 = asc ''05''"
    by (simp_all add: pad_d_def zfill_def digits_small digits_two digits_2018
        replicate_small asc_def)
  show ?thesis
    using date_line_day_month_year [OF sample_accepted] sample_accepted
    by (simp add: f d from_bytes_simps asc_def)
qed


end
